theory Spec2Isabelle
  imports Main "HOL-Library.Word"
begin

section \<open>The feed monitor: data model\<close>

text \<open>
  The embedding follows the second revision of \<^verbatim>\<open>feeds-checker.go\<close> (the one whose
  \<^verbatim>\<open>FeedInfo\<close> carries \<^verbatim>\<open>FailureSince\<close>). Go strings and byte slices are
  \<^typ>\<open>string\<close>; \<^verbatim>\<open>int64\<close> is \<^typ>\<open>64 word\<close>; a Go map is a partial function and
  \<^verbatim>\<open>len\<close> of it the cardinality of its domain; a \<^verbatim>\<open>time.Time\<close> is the number of
  nanoseconds since the zero instant, so that \<^verbatim>\<open>IsZero\<close> is equality with 0.
\<close>

type_synonym Time = int
type_synonym Duration = int

definition IsZero :: "Time \<Rightarrow> bool" where
  "IsZero t = (t = 0)"

definition Hour :: Duration where
  "Hour = 3600000000000"

definition maxDuration :: Duration where
  "maxDuration = 2 ^ 63 - 1"

definition minDuration :: Duration where
  "minDuration = - (2 ^ 63)"

text \<open>\<^verbatim>\<open>Time.Sub\<close> saturates at the ends of the 64-bit \<^verbatim>\<open>Duration\<close> range.\<close>

definition Sub :: "Time \<Rightarrow> Time \<Rightarrow> Duration" where
  "Sub t u = (let d = t - u in
     if d > maxDuration then maxDuration
     else if d < minDuration then minDuration
     else d)"

text \<open>\<^verbatim>\<open>time.Since(t)\<close> is \<^verbatim>\<open>time.Now().Sub(t)\<close>; the clock reading is a parameter.\<close>

definition Since :: "Time \<Rightarrow> Time \<Rightarrow> Duration" where
  "Since now t = Sub now t"

record FeedInfo =
  Stat :: string
  Size :: string
  VacanciesCount :: "64 word"
  FailureSince :: Time

definition FeedsLimit :: nat where
  "FeedsLimit = 32"

text \<open>
  A function either returns or panics. A panic inside \<^verbatim>\<open>getFeedSize\<close> is the run-time
  error of indexing a nil slice.
\<close>

datatype 'a outcome = Panic | Return 'a

subsection \<open>The outside world\<close>

text \<open>
  \<^verbatim>\<open>http.Get\<close> either fails or gives a response with a status code and a body. Reading
  the body delivers bytes and then ends, normally or with a read error. The gzip reader and
  the xml decoder of the standard library are not part of the repository: their combined
  behaviour on a body is a parameter. Opening the gzip stream either rejects the header, or
  the decoder yields finitely many tokens and then reports the end of input or an error
  (a syntax error, a corrupted compressed stream, a failed read).
\<close>

datatype http_body = Body string bool

datatype http_reply = GetError | Response nat http_body

datatype xml_token =
    StartElement string
  | EndElement string
  | CharData string
  | Comment string
  | ProcInst string
  | Directive string

datatype stream_end = EOF | TokenError

datatype archive = BadHeader | Tokens "xml_token list" stream_end

record env =
  http_Get :: "string \<Rightarrow> http_reply"
  gzip_xml :: "http_body \<Rightarrow> archive"

text \<open>\<^verbatim>\<open>ioutil.ReadAll\<close>: the bytes read, and whether an error ended the read.\<close>

fun ReadAll :: "http_body \<Rightarrow> string \<times> bool" where
  "ReadAll (Body bytes failed) = (bytes, failed)"

section \<open>The stat probe\<close>

text \<open>
  The regular expression \<^verbatim>\<open>size:(\d+) bytes\<close>. A match that starts at a given position is
  unique: the digits are followed by a space, so the greedy \<^verbatim>\<open>\d+\<close> takes all of them.
  \<^verbatim>\<open>FindSubmatch\<close> returns the leftmost match as the slice of the whole match and of
  group 1, and nil (the empty slice) when there is none.
\<close>

definition isDigit :: "char \<Rightarrow> bool" where
  "isDigit c = (c \<in> set ''0123456789'')"

definition match_here :: "string \<Rightarrow> string list" where
  "match_here s =
     (if take 5 s = ''size:'' then
        (let ds = takeWhile isDigit (drop 5 s);
             rest = dropWhile isDigit (drop 5 s)
         in if ds \<noteq> [] \<and> take 6 rest = '' bytes''
            then [''size:'' @ ds @ '' bytes'', ds]
            else [])
      else [])"

fun FindSubmatch :: "string \<Rightarrow> string list" where
  "FindSubmatch [] = []"
| "FindSubmatch (c # cs) =
     (case match_here (c # cs) of
        [] \<Rightarrow> FindSubmatch cs
      | m # ms \<Rightarrow> m # ms)"

text \<open>Indexing a slice: out of range is a run-time panic.\<close>

definition index :: "'a list \<Rightarrow> nat \<Rightarrow> 'a outcome" where
  "index xs i = (if i < length xs then Return (xs ! i) else Panic)"

text \<open>
  \<^verbatim>\<open>getFeedSize\<close> returns the named results \<^verbatim>\<open>(size, stat)\<close>; the early returns leave
  \<^verbatim>\<open>size\<close> empty. The second component of the model's result lists the URLs requested
  with \<^verbatim>\<open>http.Get\<close>, in order.
\<close>

definition getFeedSize :: "env \<Rightarrow> string \<Rightarrow> (string \<times> string) outcome \<times> string list" where
  "getFeedSize e url =
     (let statUrl = url @ ''?stat'' in
      (case http_Get e statUrl of
         GetError \<Rightarrow> Return ('''', '''')
       | Response code bd \<Rightarrow>
           if code \<ge> 300 then Return ('''', '''')
           else (case ReadAll bd of
                   (stat, True) \<Rightarrow> Return ('''', stat)
                 | (stat, False) \<Rightarrow>
                     (case index (FindSubmatch stat) 1 of
                        Panic \<Rightarrow> Panic
                      | Return sz \<Rightarrow> Return (sz, stat))),
       [statUrl]))"

definition feedIsAlive :: "env \<Rightarrow> string \<Rightarrow> bool outcome" where
  "feedIsAlive e url =
     (case fst (getFeedSize e url) of
        Panic \<Rightarrow> Panic
      | Return (sz, stat) \<Rightarrow> Return (sz \<noteq> ''''))"

section \<open>The archive counter\<close>

datatype fetch_error = FetchingArchive | Uncompressing

text \<open>
  The loop of \<^verbatim>\<open>countVacancies\<close>: \<^verbatim>\<open>t, _ := decoder.Token()\<close> drops the error, and a
  nil token ends the loop whatever that error was. \<^verbatim>\<open>count++\<close> is 64-bit addition.
\<close>

fun tokenLoop :: "xml_token list \<Rightarrow> stream_end \<Rightarrow> 64 word \<Rightarrow> 64 word" where
  "tokenLoop [] ending count = count"
| "tokenLoop (t # ts) ending count =
     (case t of
        StartElement local \<Rightarrow>
          if local = ''vacancy'' then tokenLoop ts ending (count + 1)
          else tokenLoop ts ending count
      | _ \<Rightarrow> tokenLoop ts ending count)"

definition countVacancies :: "env \<Rightarrow> string \<Rightarrow> (fetch_error + 64 word) \<times> string list" where
  "countVacancies e url =
     ((case http_Get e url of
         GetError \<Rightarrow> Inl FetchingArchive
       | Response code bd \<Rightarrow>
           (case gzip_xml e bd of
              BadHeader \<Rightarrow> Inl Uncompressing
            | Tokens ts ending \<Rightarrow> Inr (tokenLoop ts ending 0))),
      [url])"

section \<open>Refreshing the stored information\<close>

datatype update_error = GettingFeedSize | CountingVacancies fetch_error

text \<open>
  \<^verbatim>\<open>updateInfoIfNeed\<close> returns its error (\<^const>\<open>None\<close> is nil), the map after the call
  and the URLs requested. The struct literal it stores names three fields; the fourth,
  \<^verbatim>\<open>FailureSince\<close>, gets the zero value.
\<close>

definition updateInfoIfNeed ::
  "env \<Rightarrow> string \<Rightarrow> (string \<rightharpoonup> FeedInfo) \<Rightarrow>
   update_error option outcome \<times> (string \<rightharpoonup> FeedInfo) \<times> string list" where
  "updateInfoIfNeed e url feeds =
     (case getFeedSize e url of
        (Panic, reqs) \<Rightarrow> (Panic, feeds, reqs)
      | (Return (sz, stat), reqs) \<Rightarrow>
          if sz = '''' then (Return (Some GettingFeedSize), feeds, reqs)
          else if (case feeds url of None \<Rightarrow> True | Some fi \<Rightarrow> Size fi \<noteq> sz) then
            (case countVacancies e url of
               (Inl err, reqs') \<Rightarrow>
                 (Return (Some (CountingVacancies err)), feeds, reqs @ reqs')
             | (Inr vc, reqs') \<Rightarrow>
                 (Return None,
                  feeds(url \<mapsto> \<lparr>Stat = stat, Size = sz, VacanciesCount = vc, FailureSince = 0\<rparr>),
                  reqs @ reqs'))
          else (Return None, feeds, reqs))"

section \<open>The server state, the workers and the handler\<close>

text \<open>
  The two global maps, and the goroutines started by the handler that are still running
  (each named by the URL it was started for). One call of the handler and one iteration of
  a worker's loop are each taken as a single step: the source guards the maps with no lock,
  and executions that overlap in time are outside this model. All clock readings of one
  step are the same instant \<open>now\<close>.
\<close>

record state =
  info :: "string \<rightharpoonup> FeedInfo"
  updaters :: "string \<rightharpoonup> Time"
  workers :: "string list"

definition initial :: state where
  "initial = \<lparr>info = Map.empty, updaters = Map.empty, workers = []\<rparr>"

text \<open>Reading a Go map at a missing key gives the zero value.\<close>

definition lastRequested :: "state \<Rightarrow> string \<Rightarrow> Time" where
  "lastRequested s url = (case updaters s url of None \<Rightarrow> 0 | Some t \<Rightarrow> t)"

datatype loop_step = Continue | Exit

text \<open>
  One iteration of the goroutine's loop \<^verbatim>\<open>for ; ; <-c { ... }\<close>. On an error,
  \<^verbatim>\<open>feed, ok := info[url]\<close> copies the map's value into a local variable; the assignment
  to \<^verbatim>\<open>feed.FailureSince\<close> changes that copy, which is dropped at \<^verbatim>\<open>continue\<close>.
  A panic in a goroutine ends the process.
\<close>

definition worker_iteration ::
  "env \<Rightarrow> Time \<Rightarrow> string \<Rightarrow> state \<Rightarrow> (loop_step \<times> state) outcome" where
  "worker_iteration e now url s =
     (case updateInfoIfNeed e url (info s) of
        (Panic, feeds, reqs) \<Rightarrow> Panic
      | (Return (Some err), feeds, reqs) \<Rightarrow>
          (let s1 = s\<lparr>info := feeds\<rparr>;
               feed = (case info s1 url of
                         None \<Rightarrow> None
                       | Some fi \<Rightarrow>
                           if IsZero (FailureSince fi) then Some (fi\<lparr>FailureSince := now\<rparr>)
                           else Some fi)
           in Return (Continue, s1))
      | (Return None, feeds, reqs) \<Rightarrow>
          (let s1 = s\<lparr>info := feeds\<rparr> in
           if Since now (lastRequested s1 url) > 6 * Hour then
             Return (Exit, s1\<lparr>updaters := (updaters s1)(url := None),
                                info := (info s1)(url := None),
                                workers := remove1 url (workers s1)\<rparr>)
           else Return (Continue, s1)))"

text \<open>
  The response writer: the status code once written, and the bytes written. The first
  \<^verbatim>\<open>Write\<close> without a preceding \<^verbatim>\<open>WriteHeader\<close> sends status 200.
\<close>

record response =
  statusCode :: "nat option"
  content :: string

definition fresh :: response where
  "fresh = \<lparr>statusCode = None, content = ''''\<rparr>"

definition WriteHeader :: "nat \<Rightarrow> response \<Rightarrow> response" where
  "WriteHeader c w = (if statusCode w = None then w\<lparr>statusCode := Some c\<rparr> else w)"

definition Write :: "string \<Rightarrow> response \<Rightarrow> response" where
  "Write bs w = (let w1 = WriteHeader 200 w in w1\<lparr>content := content w1 @ bs\<rparr>)"

text \<open>Decimal formatting, as \<^verbatim>\<open>%d\<close> and \<^verbatim>\<open>%v\<close> print an integer.\<close>

fun FormatNat :: "nat \<Rightarrow> string" where
  "FormatNat n =
     (if n < 10 then [''0123456789'' ! n]
      else FormatNat (n div 10) @ [''0123456789'' ! (n mod 10)])"

declare FormatNat.simps [simp del]

definition FormatInt :: "int \<Rightarrow> string" where
  "FormatInt i = (if i < 0 then CHR ''-'' # FormatNat (nat (- i)) else FormatNat (nat i))"

definition newline :: string where
  "newline = [CHR 0x0A]"

definition limitMessage :: string where
  "limitMessage = ''Feeds limit ('' @ FormatInt (int FeedsLimit) @ '') is exhausted:'' @ newline"

definition staleMessage :: string where
  "staleMessage = ''information could not be obtained for more than 6 hours''"

definition payload :: "FeedInfo \<Rightarrow> string" where
  "payload feed =
     Stat feed @ '', vacanciesCount: '' @ FormatInt (sint (VacanciesCount feed))"

text \<open>
  The tail of the handler, from \<^verbatim>\<open>updaters[url] = time.Now()\<close> on. After the 417 branch
  there is no return: the payload is written to the same response.
\<close>

definition respond :: "Time \<Rightarrow> string \<Rightarrow> state \<Rightarrow> (response \<times> state) outcome" where
  "respond now url s =
     (let s1 = s\<lparr>updaters := (updaters s)(url \<mapsto> now)\<rparr> in
      (case info s1 url of
         None \<Rightarrow> Return (WriteHeader 202 fresh, s1)
       | Some feed \<Rightarrow>
           (let w1 = (if \<not> IsZero (FailureSince feed) \<and> Since now (FailureSince feed) > 6 * Hour
                      then Write staleMessage (WriteHeader 417 fresh)
                      else fresh)
            in Return (Write (payload feed) w1, s1))))"

text \<open>
  \<^verbatim>\<open>feedInfoHandler\<close>. \<open>query\<close> is \<^verbatim>\<open>values["url"]\<close>, \<^const>\<open>None\<close> when the parameter is
  missing. \<open>keys\<close> is the order in which \<^verbatim>\<open>range updaters\<close> yields the keys in this call
  (Go leaves it unspecified). A panic in a handler is recovered by the server; here it can
  only come from the liveness probe, before anything is written.
\<close>

definition feedInfoHandler ::
  "env \<Rightarrow> Time \<Rightarrow> string list \<Rightarrow> string list option \<Rightarrow> state \<Rightarrow> (response \<times> state) outcome" where
  "feedInfoHandler e now keys query s =
     (case query of
        None \<Rightarrow> Return (WriteHeader 400 fresh, s)
      | Some urls \<Rightarrow>
          (case index urls 0 of
             Panic \<Rightarrow> Panic
           | Return url \<Rightarrow>
               if length url = 0 then Return (WriteHeader 400 fresh, s)
               else (case updaters s url of
                       Some t \<Rightarrow> respond now url s
                     | None \<Rightarrow>
                         (case feedIsAlive e url of
                            Panic \<Rightarrow> Panic
                          | Return False \<Rightarrow> Return (WriteHeader 404 fresh, s)
                          | Return True \<Rightarrow>
                              if card (dom (updaters s)) \<ge> FeedsLimit then
                                Return (foldl (\<lambda>w u. Write (u @ newline) w)
                                          (Write limitMessage (WriteHeader 402 fresh)) keys, s)
                              else respond now url (s\<lparr>workers := workers s @ [url]\<rparr>)))))"

text \<open>
  The states the server can be in: it starts with empty maps; a request is served; a
  running worker performs an iteration. No state follows a worker's panic.
\<close>

inductive reachable :: "state \<Rightarrow> bool" where
  start: "reachable initial"
| request:
    "reachable s \<Longrightarrow> distinct keys \<Longrightarrow> set keys = dom (updaters s) \<Longrightarrow>
     feedInfoHandler e now keys query s = Return (w, s') \<Longrightarrow> reachable s'"
| iteration:
    "reachable s \<Longrightarrow> url \<in> set (workers s) \<Longrightarrow>
     worker_iteration e now url s = Return (step, s') \<Longrightarrow> reachable s'"

section \<open>Concrete inputs\<close>

text \<open>
  A world with one feed, \<open>''feed''\<close>: the reply of its stat sidecar, the reply of the
  archive URL, and what the decoder makes of the archive's body. Every other URL fails.
\<close>

definition world :: "http_reply \<Rightarrow> http_reply \<Rightarrow> archive \<Rightarrow> env" where
  "world statReply feedReply decoded =
     \<lparr>http_Get = (\<lambda>u. if u = ''feed?stat'' then statReply
                       else if u = ''feed'' then feedReply
                       else GetError),
      gzip_xml = (\<lambda>b. decoded)\<rparr>"

definition stat100 :: http_reply where
  "stat100 = Response 200 (Body ''size:100 bytes'' False)"


definition gz :: http_reply where
  "gz = Response 200 (Body ''gz'' False)"

definition three :: archive where
  "three = Tokens [StartElement ''vacancies'',
                   StartElement ''vacancy'', EndElement ''vacancy'',
                   StartElement ''vacancy'', EndElement ''vacancy'',
                   StartElement ''vacancy'', EndElement ''vacancy'',
                   EndElement ''vacancies''] EOF"

definition broken :: archive where
  "broken = Tokens [StartElement ''vacancies'',
                    StartElement ''vacancy'', EndElement ''vacancy''] TokenError"


text \<open>What a refresh in the world \<open>world stat100 gz three\<close> stores for \<open>''feed''\<close>.\<close>

definition stored100 :: FeedInfo where
  "stored100 =
     \<lparr>Stat = ''size:100 bytes'', Size = ''100'', VacanciesCount = 3, FailureSince = 0\<rparr>"

text \<open>The same entry with a failure time in it.\<close>

definition failing100 :: FeedInfo where
  "failing100 = stored100\<lparr>FailureSince := 1000\<rparr>"

text \<open>The server after one lookup of \<open>''feed''\<close> at time 0 and one iteration of its worker.\<close>

definition tracked1 :: state where
  "tracked1 =
     \<lparr>info = [''feed'' \<mapsto> stored100], updaters = [''feed'' \<mapsto> 0], workers = [''feed'']\<rparr>"

definition stale :: state where
  "stale =
     \<lparr>info = [''feed'' \<mapsto> failing100], updaters = [''feed'' \<mapsto> 5 * Hour],
      workers = [''feed'']\<rparr>"



section \<open>The probe, the counter and the refresh\<close>

lemma getFeedSize_requests: "snd (getFeedSize e url) = [url @ ''?stat'']"
  by (simp add: getFeedSize_def Let_def)

lemma countVacancies_requests: "snd (countVacancies e url) = [url]"
  by (simp add: countVacancies_def)

lemma getFeedSize_stat100:
  "getFeedSize (world stat100 r a) ''feed'' =
     (Return (''100'', ''size:100 bytes''), [''feed?stat''])"
  by (simp add: getFeedSize_def world_def stat100_def index_def match_here_def isDigit_def)


lemma getFeedSize_down:
  "getFeedSize (world GetError r a) ''feed'' = (Return ('''', ''''), [''feed?stat''])"
  by (simp add: getFeedSize_def world_def)

lemma getFeedSize_transport_error:
  "http_Get e (url @ ''?stat'') = GetError \<Longrightarrow> fst (getFeedSize e url) = Return ('''', '''')"
  by (simp add: getFeedSize_def)

lemma getFeedSize_bad_status:
  "http_Get e (url @ ''?stat'') = Response code bd \<Longrightarrow> code \<ge> 300 \<Longrightarrow>
   fst (getFeedSize e url) = Return ('''', '''')"
  by (simp add: getFeedSize_def)

lemma getFeedSize_no_match:
  "http_Get e (url @ ''?stat'') = Response code (Body stat False) \<Longrightarrow> code < 300 \<Longrightarrow>
   FindSubmatch stat = [] \<Longrightarrow> fst (getFeedSize e url) = Panic"
  by (simp add: getFeedSize_def index_def)

lemma tokenLoop_ignores_end: "tokenLoop ts ending count = tokenLoop ts EOF count"
  by (induction ts arbitrary: count) (auto split: xml_token.splits)

lemma countVacancies_transport_error:
  "http_Get e url = GetError \<Longrightarrow> fst (countVacancies e url) = Inl FetchingArchive"
  by (simp add: countVacancies_def)

lemma countVacancies_bad_header:
  "http_Get e url = Response code bd \<Longrightarrow> gzip_xml e bd = BadHeader \<Longrightarrow>
   fst (countVacancies e url) = Inl Uncompressing"
  by (simp add: countVacancies_def)

lemma feedIsAlive_stat100: "feedIsAlive (world stat100 r a) ''feed'' = Return True"
  by (simp add: feedIsAlive_def getFeedSize_stat100)



lemma countVacancies_three:
  "countVacancies (world r gz three) ''feed'' = (Inr 3, [''feed''])"
  by (simp add: countVacancies_def world_def gz_def three_def)

lemma updateInfoIfNeed_first:
  "updateInfoIfNeed (world stat100 gz three) ''feed'' Map.empty
     = (Return None, [''feed'' \<mapsto> stored100], [''feed?stat'', ''feed''])"
  by (simp add: updateInfoIfNeed_def getFeedSize_stat100 countVacancies_three stored100_def)

lemma updateInfoIfNeed_again:
  "updateInfoIfNeed (world stat100 r a) ''feed'' [''feed'' \<mapsto> stored100]
     = (Return None, [''feed'' \<mapsto> stored100], [''feed?stat''])"
  by (simp add: updateInfoIfNeed_def getFeedSize_stat100 stored100_def)

lemma updateInfoIfNeed_down:
  "updateInfoIfNeed (world GetError r a) ''feed'' [''feed'' \<mapsto> stored100]
     = (Return (Some GettingFeedSize), [''feed'' \<mapsto> stored100], [''feed?stat''])"
  by (simp add: updateInfoIfNeed_def getFeedSize_down)

lemma updateInfoIfNeed_cases:
  assumes "updateInfoIfNeed e url feeds = (r, feeds', reqs)"
  shows "feeds' = feeds \<or>
         (\<exists>sz stat vc. feeds' = feeds(url \<mapsto>
            \<lparr>Stat = stat, Size = sz, VacanciesCount = vc, FailureSince = 0\<rparr>))"
  using assms
  by (auto simp: updateInfoIfNeed_def
           split: prod.splits outcome.splits if_splits sum.splits option.splits)

lemma failed_refresh_keeps_map:
  "updateInfoIfNeed e url feeds = (Return (Some err), feeds', reqs) \<Longrightarrow> feeds' = feeds"
  by (auto simp: updateInfoIfNeed_def
           split: prod.splits outcome.splits if_splits sum.splits option.splits)

text \<open>
  C1. When the probe returns a non-empty size marker equal to the stored \<open>Size\<close>,
  \<^const>\<open>updateInfoIfNeed\<close> returns nil and the map is the one it was given, so the stored
  count, stat and size are the prior ones. The only request made is the one to the stat
  sidecar; a call of \<^const>\<open>countVacancies\<close> would have requested the feed's own URL, a
  different one, so the counter was not called.
\<close>

theorem updateInfoIfNeed_same_size:
  assumes "fst (getFeedSize e url) = Return (sz, stat)"
    and "sz \<noteq> ''''"
    and "feeds url = Some fi"
    and "Size fi = sz"
  shows "updateInfoIfNeed e url feeds = (Return None, feeds, [url @ ''?stat''])
         \<and> snd (countVacancies e url) = [url]
         \<and> url \<noteq> url @ ''?stat''"
proof -
  from assms(1) have "getFeedSize e url = (Return (sz, stat), [url @ ''?stat''])"
    using getFeedSize_requests [of e url] by (metis prod.collapse)
  with assms(2-4) show ?thesis
    by (simp add: updateInfoIfNeed_def countVacancies_requests)
qed

theorem updateInfoIfNeed_same_size_witness:
  "fst (getFeedSize (world stat100 gz broken) ''feed'') = Return (''100'', ''size:100 bytes'')
   \<and> [''feed'' \<mapsto> stored100] ''feed'' = Some stored100
   \<and> Size stored100 = ''100''
   \<and> updateInfoIfNeed (world stat100 gz broken) ''feed'' [''feed'' \<mapsto> stored100]
       = (Return None, [''feed'' \<mapsto> stored100], [''feed?stat''])"
  using updateInfoIfNeed_same_size [of "world stat100 gz broken" "''feed''" "''100''"
      "''size:100 bytes''" "[''feed'' \<mapsto> stored100]" stored100]
  by (simp add: getFeedSize_stat100 stored100_def)

text \<open>
  C3. The probe on a body without the pattern: a reply with status 200 and body
  \<open>''hello''\<close>. \<^const>\<open>FindSubmatch\<close> returns nil and indexing it panics; no empty size
  marker is returned.
\<close>

theorem getFeedSize_without_pattern:
  "getFeedSize (world (Response 200 (Body ''hello'' False)) GetError BadHeader) ''feed''
     = (Panic, [''feed?stat''])"
  by (simp add: getFeedSize_def world_def index_def match_here_def)

text \<open>
  C4. A call of \<^const>\<open>updateInfoIfNeed\<close> returns either the map it was given, or that map
  with the entry of \<open>url\<close> replaced by the size and stat of this call's probe and the count
  of this call's \<^const>\<open>countVacancies\<close>, and then it returns nil. Whenever it returns an
  error or panics, when the probe's size marker is empty, and when the counter reports an
  error, the map is the one it was given.
\<close>

theorem updateInfoIfNeed_all_or_nothing:
  assumes "updateInfoIfNeed e url feeds = (r, feeds', reqs)"
  shows "(feeds' = feeds \<or>
          (\<exists>sz stat vc. r = Return None \<and> fst (getFeedSize e url) = Return (sz, stat)
             \<and> sz \<noteq> '''' \<and> fst (countVacancies e url) = Inr vc
             \<and> feeds' = feeds(url \<mapsto>
                  \<lparr>Stat = stat, Size = sz, VacanciesCount = vc, FailureSince = 0\<rparr>)))
       \<and> (r \<noteq> Return None \<longrightarrow> feeds' = feeds)
       \<and> (\<forall>stat. fst (getFeedSize e url) = Return ('''', stat) \<longrightarrow> feeds' = feeds)
       \<and> (\<forall>err. fst (countVacancies e url) = Inl err \<longrightarrow> feeds' = feeds)"
  using assms
  by (auto simp: updateInfoIfNeed_def
           split: prod.splits outcome.splits if_splits sum.splits option.splits)

theorem updateInfoIfNeed_all_or_nothing_witness:
  "updateInfoIfNeed (world stat100 gz three) ''feed'' Map.empty
     = (Return None, [''feed'' \<mapsto> stored100], [''feed?stat'', ''feed''])
   \<and> ([''feed'' \<mapsto> stored100] = Map.empty \<or>
        (\<exists>sz stat vc. fst (getFeedSize (world stat100 gz three) ''feed'') = Return (sz, stat)
           \<and> sz \<noteq> '''' \<and> fst (countVacancies (world stat100 gz three) ''feed'') = Inr vc
           \<and> [''feed'' \<mapsto> stored100] = [''feed'' \<mapsto>
                  \<lparr>Stat = stat, Size = sz, VacanciesCount = vc, FailureSince = 0\<rparr>]))"
  using updateInfoIfNeed_all_or_nothing [OF updateInfoIfNeed_first] updateInfoIfNeed_first
  by simp

text \<open>
  On a map built by hand, with a non-zero \<open>FailureSince\<close> in the entry: the branch for
  an unchanged size marker writes nothing, so the entry is returned as it was given. No
  state of the running server holds such an entry (\<open>reachable_FailureSince_zero\<close> below).
\<close>

lemma updateInfoIfNeed_same_size_keeps_entry:
  "updateInfoIfNeed (world stat100 gz three) ''feed'' [''feed'' \<mapsto> failing100]
     = (Return None, [''feed'' \<mapsto> failing100], [''feed?stat''])
   \<and> FailureSince failing100 = 1000"
  by (simp add: updateInfoIfNeed_def getFeedSize_stat100 failing100_def stored100_def)




text \<open>
  C8. The counter on an archive whose token stream breaks after one \<open>vacancy\<close> start tag:
  the count so far is returned as a success.
\<close>

theorem countVacancies_broken_stream:
  "countVacancies (world stat100 gz broken) ''feed'' = (Inr 1, [''feed''])"
  by (simp add: countVacancies_def world_def gz_def broken_def)

section \<open>The worker\<close>

lemma Since_gt:
  "b < maxDuration \<Longrightarrow> minDuration \<le> b \<Longrightarrow> (Since now t > b) = (now - t > b)"
  by (auto simp: Since_def Sub_def Let_def maxDuration_def minDuration_def)

lemma Since_six_hours: "(Since now t > 6 * Hour) = (now - t > 6 * Hour)"
  by (rule Since_gt) (simp_all add: Hour_def maxDuration_def minDuration_def)

text \<open>
  C5. A worker iteration whose refresh fails (the stat sidecar cannot be fetched) for a
  tracked feed whose stored \<open>FailureSince\<close> is zero: the worker continues and evicts
  nothing, and the stored entry is the one from before, its \<open>FailureSince\<close> still zero.
\<close>

theorem worker_iteration_failure_not_recorded:
  "worker_iteration (world GetError GetError BadHeader) (7 * Hour) ''feed'' tracked1
     = Return (Continue, tracked1)
   \<and> info tracked1 ''feed'' = Some stored100
   \<and> FailureSince stored100 = 0"
  by (simp add: worker_iteration_def updateInfoIfNeed_down tracked1_def)
     (simp add: stored100_def)

text \<open>
  C9. In one iteration of the worker: when the refresh returns an error, the worker
  continues with the state as it was, whatever the clock and the time of the last request
  are, so the idle check is not evaluated; when the refresh returns nil and the last
  request is more than six hours ago, the entries of \<open>url\<close> are deleted from both maps
  and the goroutine returns, leaving the running workers; when the refresh returns nil and
  the last request is at most six hours ago, the worker continues and both entries stay.
\<close>

theorem worker_iteration_idle_check:
  "(\<forall>err feeds reqs.
      updateInfoIfNeed e url (info s) = (Return (Some err), feeds, reqs)
      \<longrightarrow> worker_iteration e now url s = Return (Continue, s))
   \<and> (\<forall>feeds reqs t.
         updateInfoIfNeed e url (info s) = (Return None, feeds, reqs)
         \<and> updaters s url = Some t \<and> now - t > 6 * Hour
      \<longrightarrow> worker_iteration e now url s
            = Return (Exit, \<lparr>info = feeds(url := None),
                             updaters = (updaters s)(url := None),
                             workers = remove1 url (workers s)\<rparr>))
   \<and> (\<forall>feeds reqs t.
         updateInfoIfNeed e url (info s) = (Return None, feeds, reqs)
         \<and> updaters s url = Some t \<and> now - t \<le> 6 * Hour
      \<longrightarrow> worker_iteration e now url s = Return (Continue, s\<lparr>info := feeds\<rparr>))"
proof (intro conjI allI impI)
  fix err feeds reqs
  assume a: "updateInfoIfNeed e url (info s) = (Return (Some err), feeds, reqs)"
  then have "feeds = info s" by (rule failed_refresh_keeps_map)
  with a show "worker_iteration e now url s = Return (Continue, s)"
    by (simp add: worker_iteration_def Let_def)
next
  fix feeds reqs t
  assume "updateInfoIfNeed e url (info s) = (Return None, feeds, reqs)
          \<and> updaters s url = Some t \<and> now - t > 6 * Hour"
  then show "worker_iteration e now url s
            = Return (Exit, \<lparr>info = feeds(url := None),
                             updaters = (updaters s)(url := None),
                             workers = remove1 url (workers s)\<rparr>)"
    by (simp add: worker_iteration_def Let_def lastRequested_def Since_six_hours)
next
  fix feeds reqs t
  assume "updateInfoIfNeed e url (info s) = (Return None, feeds, reqs)
          \<and> updaters s url = Some t \<and> now - t \<le> 6 * Hour"
  then show "worker_iteration e now url s = Return (Continue, s\<lparr>info := feeds\<rparr>)"
    by (simp add: worker_iteration_def Let_def lastRequested_def Since_six_hours)
qed

theorem worker_iteration_idle_check_witness:
  "updateInfoIfNeed (world GetError GetError BadHeader) ''feed'' (info tracked1)
      = (Return (Some GettingFeedSize), [''feed'' \<mapsto> stored100], [''feed?stat''])
   \<and> worker_iteration (world GetError GetError BadHeader) (7 * Hour) ''feed'' tracked1
      = Return (Continue, tracked1)
   \<and> updateInfoIfNeed (world stat100 gz three) ''feed'' (info tracked1)
      = (Return None, [''feed'' \<mapsto> stored100], [''feed?stat''])
   \<and> updaters tracked1 ''feed'' = Some 0
   \<and> 7 * Hour - 0 > 6 * Hour
   \<and> worker_iteration (world stat100 gz three) (7 * Hour) ''feed'' tracked1
      = Return (Exit, \<lparr>info = Map.empty, updaters = Map.empty, workers = []\<rparr>)
   \<and> 5 * Hour - 0 \<le> 6 * Hour
   \<and> worker_iteration (world stat100 gz three) (5 * Hour) ''feed'' tracked1
      = Return (Continue, tracked1)"
  using worker_iteration_idle_check
          [of "world GetError GetError BadHeader" "''feed''" tracked1 "7 * Hour"]
        worker_iteration_idle_check
          [of "world stat100 gz three" "''feed''" tracked1 "7 * Hour"]
        worker_iteration_idle_check
          [of "world stat100 gz three" "''feed''" tracked1 "5 * Hour"]
  by (simp add: tracked1_def updateInfoIfNeed_again updateInfoIfNeed_down Hour_def)

section \<open>The handler\<close>

lemma statusCode_Write: "statusCode w \<noteq> None \<Longrightarrow> statusCode (Write bs w) = statusCode w"
  by (simp add: Write_def WriteHeader_def)

lemma content_Write: "content (Write bs w) = content w @ bs"
  by (simp add: Write_def WriteHeader_def)


lemma statusCode_WriteHeader_fresh: "statusCode (WriteHeader c fresh) = Some c"
  by (simp add: WriteHeader_def fresh_def)

lemma Write_lines:
  "statusCode w = Some c \<Longrightarrow>
   foldl (\<lambda>w u. Write (u @ newline) w) w keys
     = \<lparr>statusCode = Some c, content = content w @ concat (map (\<lambda>u. u @ newline) keys)\<rparr>"
proof (induction keys arbitrary: w)
  case Nil
  then show ?case by simp
next
  case (Cons k keys)
  have "statusCode (Write (k @ newline) w) = Some c"
    using Cons.prems by (simp add: statusCode_Write)
  from Cons.IH [OF this] show ?case by (simp add: content_Write)
qed

lemma limit_response:
  "foldl (\<lambda>w u. Write (u @ newline) w) (Write limitMessage (WriteHeader 402 fresh)) keys
     = \<lparr>statusCode = Some 402,
        content = limitMessage @ concat (map (\<lambda>u. u @ newline) keys)\<rparr>"
proof -
  have "statusCode (Write limitMessage (WriteHeader 402 fresh)) = Some 402"
    by (simp add: Write_def WriteHeader_def fresh_def)
  from Write_lines [OF this] show ?thesis
    by (simp add: Write_def WriteHeader_def fresh_def)
qed



text \<open>
  C6. A lookup, with a non-empty URL, of a tracked feed whose stored entry has a non-zero
  \<open>FailureSince\<close> more than six hours before now: the response has status 417 and its
  body is the fixed message followed by the stat, the text \<open>, vacanciesCount: \<close> and the
  count in decimal. The lookup stamps the time of the request and changes nothing else.
\<close>

theorem stale_lookup_response:
  assumes "url \<noteq> ''''"
    and "updaters s url = Some t"
    and "info s url = Some feed"
    and "FailureSince feed \<noteq> 0"
    and "now - FailureSince feed > 6 * Hour"
  shows "feedInfoHandler e now keys (Some (url # rest)) s
     = Return (\<lparr>statusCode = Some 417,
                content = ''information could not be obtained for more than 6 hours''
                   @ Stat feed @ '', vacanciesCount: ''
                   @ FormatInt (sint (VacanciesCount feed))\<rparr>,
               s\<lparr>updaters := (updaters s)(url \<mapsto> now)\<rparr>)"
  using assms
  by (simp add: feedInfoHandler_def index_def respond_def Since_six_hours IsZero_def
       Write_def WriteHeader_def fresh_def staleMessage_def payload_def)

theorem stale_lookup_response_witness:
  "feedInfoHandler (world GetError GetError BadHeader) (1000 + 7 * Hour) [''feed'']
       (Some [''feed'']) stale
     = Return (\<lparr>statusCode = Some 417,
                content = ''information could not be obtained for more than 6 hours''
                          @ ''size:100 bytes, vacanciesCount: 3''\<rparr>,
               stale\<lparr>updaters := [''feed'' \<mapsto> 1000 + 7 * Hour]\<rparr>)"
  using stale_lookup_response [of "''feed''" stale "5 * Hour" failing100 "1000 + 7 * Hour"
      "world GetError GetError BadHeader" "[''feed'']" "[]"]
  by (simp add: stale_def failing100_def stored100_def Hour_def FormatInt_def FormatNat.simps)

section \<open>Invariants of the reachable states\<close>

subsection \<open>Stored failure times\<close>

lemma updateInfoIfNeed_keeps_zero:
  assumes "updateInfoIfNeed e url feeds = (r, feeds', reqs)"
    and "\<forall>u fi. feeds u = Some fi \<longrightarrow> FailureSince fi = 0"
  shows "\<forall>u fi. feeds' u = Some fi \<longrightarrow> FailureSince fi = 0"
  using updateInfoIfNeed_cases [OF assms(1)] assms(2) by (auto split: if_splits)

lemma worker_iteration_keeps_zero:
  assumes "worker_iteration e now url s = Return (step, s')"
    and "\<forall>u fi. info s u = Some fi \<longrightarrow> FailureSince fi = 0"
  shows "\<forall>u fi. info s' u = Some fi \<longrightarrow> FailureSince fi = 0"
proof -
  obtain r feeds reqs where u: "updateInfoIfNeed e url (info s) = (r, feeds, reqs)"
    by (metis prod_cases3)
  from updateInfoIfNeed_keeps_zero [OF u assms(2)]
  have z: "\<forall>u fi. feeds u = Some fi \<longrightarrow> FailureSince fi = 0" .
  from assms(1) u have "info s' = feeds \<or> info s' = feeds(url := None)"
    by (auto simp: worker_iteration_def Let_def split: outcome.splits option.splits if_splits)
  with z show ?thesis by (auto split: if_splits)
qed

lemma respond_info: "respond now url s = Return (w, s') \<Longrightarrow> info s' = info s"
  by (auto simp: respond_def Let_def split: option.splits)

lemma feedInfoHandler_info:
  "feedInfoHandler e now keys query s = Return (w, s') \<Longrightarrow> info s' = info s"
  by (auto simp: feedInfoHandler_def split: option.splits outcome.splits if_splits bool.splits
           dest: respond_info)

lemma reachable_FailureSince_zero:
  "reachable s \<Longrightarrow> \<forall>u fi. info s u = Some fi \<longrightarrow> FailureSince fi = 0"
proof (induction rule: reachable.induct)
  case start
  then show ?case by (simp add: initial_def)
next
  case (request s keys e now query w s')
  then show ?case using feedInfoHandler_info by metis
next
  case (iteration s url e now step s')
  then show ?case using worker_iteration_keeps_zero by blast
qed

lemma respond_status:
  assumes "respond now url s = Return (w, s')"
    and "\<forall>u fi. info s u = Some fi \<longrightarrow> FailureSince fi = 0"
  shows "statusCode w = Some 202 \<or> statusCode w = Some 200"
  using assms
  by (auto simp: respond_def Let_def IsZero_def Write_def WriteHeader_def fresh_def
           split: option.splits if_splits)

lemma feedInfoHandler_status:
  assumes "feedInfoHandler e now keys query s = Return (w, s')"
    and "\<forall>u fi. info s u = Some fi \<longrightarrow> FailureSince fi = 0"
  shows "statusCode w \<noteq> Some 417"
proof -
  have r: "statusCode w \<noteq> Some 417" if "respond now url t = Return (w, s')" "info t = info s"
    for url t
    using respond_status [OF that(1)] assms(2) that(2) by auto
  from assms(1) show ?thesis
    by (auto simp: feedInfoHandler_def statusCode_WriteHeader_fresh limit_response
             split: option.splits outcome.splits if_splits bool.splits
             dest: r)
qed

lemma reachable_tracked1: "reachable tracked1"
proof -
  let ?s0 = "\<lparr>info = Map.empty, updaters = [''feed'' \<mapsto> 0], workers = [''feed'']\<rparr>"
  have "feedInfoHandler (world stat100 gz three) 0 [] (Some [''feed'']) initial
          = Return (WriteHeader 202 fresh, ?s0)"
    by (simp add: feedInfoHandler_def index_def initial_def feedIsAlive_stat100 FeedsLimit_def
          respond_def)
  then have r0: "reachable ?s0"
    using reachable.request [OF reachable.start, of "[]"] by (simp add: initial_def)
  have "worker_iteration (world stat100 gz three) 0 ''feed'' ?s0 = Return (Continue, tracked1)"
    by (simp add: worker_iteration_def updateInfoIfNeed_first lastRequested_def Since_six_hours
          tracked1_def) (simp add: Hour_def)
  then show ?thesis
    using reachable.iteration [OF r0, of "''feed''"] by simp
qed

lemma lookup_tracked1:
  "feedInfoHandler e now keys (Some [''feed'']) tracked1
     = Return (\<lparr>statusCode = Some 200, content = ''size:100 bytes, vacanciesCount: 3''\<rparr>,
               tracked1\<lparr>updaters := [''feed'' \<mapsto> now]\<rparr>)"
  by (simp add: feedInfoHandler_def index_def tracked1_def respond_def stored100_def IsZero_def
        Write_def WriteHeader_def fresh_def payload_def FormatInt_def FormatNat.simps)



text \<open>
  C10. In every reachable state each entry of the info map has a zero \<open>FailureSince\<close>,
  and no call of the handler in such a state, whatever the world, the clock and the
  request are, answers with status 417.
\<close>

theorem FailureSince_never_stored:
  assumes "reachable s"
  shows "(\<forall>u fi. info s u = Some fi \<longrightarrow> FailureSince fi = 0)
       \<and> (\<forall>e now keys query w s'.
             feedInfoHandler e now keys query s = Return (w, s')
             \<longrightarrow> statusCode w \<noteq> Some 417)"
proof -
  from assms have "\<forall>u fi. info s u = Some fi \<longrightarrow> FailureSince fi = 0"
    by (rule reachable_FailureSince_zero)
  then show ?thesis
    using feedInfoHandler_status by blast
qed

text \<open>
  The witness: the feed is tracked and refreshed, an iteration of its worker then fails at
  hour 7, and a lookup at hour 14 still answers 200 with the payload.
\<close>

theorem FailureSince_never_stored_witness:
  "reachable tracked1
   \<and> info tracked1 ''feed'' = Some stored100
   \<and> FailureSince stored100 = 0
   \<and> worker_iteration (world GetError GetError BadHeader) (7 * Hour) ''feed'' tracked1
        = Return (Continue, tracked1)
   \<and> feedInfoHandler (world GetError GetError BadHeader) (14 * Hour) [''feed'']
         (Some [''feed'']) tracked1
       = Return (\<lparr>statusCode = Some 200, content = ''size:100 bytes, vacanciesCount: 3''\<rparr>,
                 tracked1\<lparr>updaters := [''feed'' \<mapsto> 14 * Hour]\<rparr>)
   \<and> statusCode \<lparr>statusCode = Some 200, content = ''size:100 bytes, vacanciesCount: 3''\<rparr>
        \<noteq> Some 417"
proof -
  have a: "info tracked1 ''feed'' = Some stored100" "FailureSince stored100 = 0"
    by (simp_all add: tracked1_def stored100_def)
  have b: "worker_iteration (world GetError GetError BadHeader) (7 * Hour) ''feed'' tracked1
        = Return (Continue, tracked1)"
    by (simp add: worker_iteration_def updateInfoIfNeed_down tracked1_def)
  from FailureSince_never_stored [OF reachable_tracked1] reachable_tracked1 a b
  show ?thesis
    by (simp add: lookup_tracked1)
qed

subsection \<open>The number of tracked feeds\<close>

text \<open>
  The lemmas on the number of entries below are about the step relation, in which the
  capacity test and the insertion of one handler call are one step. The source runs
  handlers concurrently and takes no lock between the test and the insertion, so they bound
  the entries only of executions in which handler calls do not overlap.
\<close>

lemma respond_updaters:
  "respond now url s = Return (w, s') \<Longrightarrow> updaters s' = (updaters s)(url \<mapsto> now)"
  by (auto simp: respond_def Let_def split: option.splits)

lemma feedInfoHandler_capacity:
  assumes "feedInfoHandler e now keys query s = Return (w, s')"
    and "finite (dom (updaters s))" and "card (dom (updaters s)) \<le> FeedsLimit"
  shows "finite (dom (updaters s')) \<and> card (dom (updaters s')) \<le> FeedsLimit"
proof -
  from assms(1) consider
      (same) "s' = s"
    | (known) url t where "updaters s url = Some t" "respond now url s = Return (w, s')"
    | (new) url where "updaters s url = None" "card (dom (updaters s)) < FeedsLimit"
        "respond now url (s\<lparr>workers := workers s @ [url]\<rparr>) = Return (w, s')"
    by (auto simp: feedInfoHandler_def split: option.splits outcome.splits if_splits bool.splits)
  then show ?thesis
  proof cases
    case same
    with assms show ?thesis by simp
  next
    case known
    from respond_updaters [OF known(2)] known(1)
    have "dom (updaters s') = dom (updaters s)" by auto
    with assms show ?thesis by simp
  next
    case new
    from respond_updaters [OF new(3)]
    have "dom (updaters s') = insert url (dom (updaters s))" by simp
    moreover from new(1) have "url \<notin> dom (updaters s)" by auto
    ultimately show ?thesis using assms(2) new(2) by simp
  qed
qed

lemma worker_iteration_capacity:
  assumes "worker_iteration e now url s = Return (step, s')"
    and "finite (dom (updaters s))" and "card (dom (updaters s)) \<le> FeedsLimit"
  shows "finite (dom (updaters s')) \<and> card (dom (updaters s')) \<le> FeedsLimit"
proof -
  from assms(1) have "updaters s' = updaters s \<or> updaters s' = (updaters s)(url := None)"
    by (auto simp: worker_iteration_def Let_def
             split: prod.splits outcome.splits option.splits if_splits)
  then show ?thesis
  proof
    assume "updaters s' = updaters s"
    with assms show ?thesis by simp
  next
    assume "updaters s' = (updaters s)(url := None)"
    then have d: "dom (updaters s') = dom (updaters s) - {url}" by simp
    have "card (dom (updaters s) - {url}) \<le> card (dom (updaters s))"
      by (rule card_Diff1_le)
    with d assms show ?thesis by simp
  qed
qed

lemma reachable_capacity:
  "reachable s \<Longrightarrow> finite (dom (updaters s)) \<and> card (dom (updaters s)) \<le> FeedsLimit"
proof (induction rule: reachable.induct)
  case start
  then show ?case by (simp add: initial_def)
next
  case (request s keys e now query w s')
  then show ?case using feedInfoHandler_capacity by blast
next
  case (iteration s url e now step s')
  then show ?case using worker_iteration_capacity by blast
qed











end
